theory Spec2Isabelle
  imports Main "HOL-Library.Word" "HOL-Library.Signed_Division"
begin

unbundle bit_operations_syntax

section \<open>The syscall hook layer of sylar (src/sylar/hook.cc)\<close>

text \<open>
  The hook layer is stateful code that talks to three collaborators: the kernel (through
  the real functions \<open>name_f\<close> found by \<open>dlsym\<close>), the IOManager and the fiber
  scheduler. The embedding threads an explicit \<open>world\<close> through every function and
  takes the answers of the collaborators from an environment \<open>env\<close>, indexed by the number of
  questions asked so far (\<open>tick\<close>). Every call that leaves the hook layer is appended
  to \<open>trace\<close>, so that "no syscall is issued" and "the timer is cancelled" are
  statements about the trace.
\<close>

subsection \<open>Constants of the system headers\<close>

text \<open>The values of \<open>errno.h\<close>, \<open>fcntl.h\<close>, \<open>sys/ioctl.h\<close> and
  \<open>sys/socket.h\<close> on Linux (x86-64), which the file is compiled against.\<close>

definition EINTR :: int where "EINTR = 4"
definition EBADF :: int where "EBADF = 9"
definition EAGAIN :: int where "EAGAIN = 11"
definition ETIMEDOUT :: int where "ETIMEDOUT = 110"
definition EINPROGRESS :: int where "EINPROGRESS = 115"

definition O_NONBLOCK :: int where "O_NONBLOCK = 2048"

definition F_DUPFD :: int where "F_DUPFD = 0"
definition F_GETFD :: int where "F_GETFD = 1"
definition F_SETFD :: int where "F_SETFD = 2"
definition F_GETFL :: int where "F_GETFL = 3"
definition F_SETFL :: int where "F_SETFL = 4"
definition F_GETLK :: int where "F_GETLK = 5"
definition F_SETLK :: int where "F_SETLK = 6"
definition F_SETLKW :: int where "F_SETLKW = 7"
definition F_SETOWN :: int where "F_SETOWN = 8"
definition F_GETOWN :: int where "F_GETOWN = 9"
definition F_SETSIG :: int where "F_SETSIG = 10"
definition F_GETSIG :: int where "F_GETSIG = 11"
definition F_SETOWN_EX :: int where "F_SETOWN_EX = 15"
definition F_GETOWN_EX :: int where "F_GETOWN_EX = 16"
definition F_SETLEASE :: int where "F_SETLEASE = 1024"
definition F_GETLEASE :: int where "F_GETLEASE = 1025"
definition F_NOTIFY :: int where "F_NOTIFY = 1026"
definition F_DUPFD_CLOEXEC :: int where "F_DUPFD_CLOEXEC = 1030"
definition F_SETPIPE_SZ :: int where "F_SETPIPE_SZ = 1031"
definition F_GETPIPE_SZ :: int where "F_GETPIPE_SZ = 1032"

definition FIONBIO :: int where "FIONBIO = 21537"

definition SOL_SOCKET :: int where "SOL_SOCKET = 1"
definition SO_ERROR :: int where "SO_ERROR = 4"
definition SO_RCVTIMEO :: int where "SO_RCVTIMEO = 20"
definition SO_SNDTIMEO :: int where "SO_SNDTIMEO = 21"

subsection \<open>Data\<close>

text \<open>\<open>IOManager::Event\<close>, as far as the hooks use it.\<close>

datatype event = READ | WRITE

text \<open>\<open>struct timer_info\<close>: 0, or the errno the suspended call has to report.\<close>

record timer_info =
  cancelled :: int

text \<open>\<open>struct timeval\<close>: two signed 64-bit fields.\<close>

record timeval =
  tv_sec :: "64 word"
  tv_usec :: "64 word"

text \<open>
  Modelled from the spec: \<open>FdCtx\<close> (fd_manager.h is not among the sources). The fields are
  those of the spec's data model; the accessors below are the methods the hooks call.
\<close>

record FdCtx =
  is_init :: bool
  is_socket :: bool
  is_closed :: bool
  sys_nonblock :: bool
  user_nonblock :: bool
  recv_timeout_ms :: "64 word"
  send_timeout_ms :: "64 word"

definition isClose :: "FdCtx \<Rightarrow> bool" where
  "isClose ctx = is_closed ctx"

definition isSocket :: "FdCtx \<Rightarrow> bool" where
  "isSocket ctx = is_socket ctx"

definition getUserNonblock :: "FdCtx \<Rightarrow> bool" where
  "getUserNonblock ctx = user_nonblock ctx"

definition getSysNonblock :: "FdCtx \<Rightarrow> bool" where
  "getSysNonblock ctx = sys_nonblock ctx"

definition setUserNonblock :: "bool \<Rightarrow> FdCtx \<Rightarrow> FdCtx" where
  "setUserNonblock v ctx = ctx\<lparr>user_nonblock := v\<rparr>"

definition getTimeout :: "int \<Rightarrow> FdCtx \<Rightarrow> 64 word" where
  "getTimeout type ctx =
     (if type = SO_RCVTIMEO then recv_timeout_ms ctx else send_timeout_ms ctx)"

definition setTimeout :: "int \<Rightarrow> 64 word \<Rightarrow> FdCtx \<Rightarrow> FdCtx" where
  "setTimeout type v ctx =
     (if type = SO_RCVTIMEO then ctx\<lparr>recv_timeout_ms := v\<rparr>
      else ctx\<lparr>send_timeout_ms := v\<rparr>)"

text \<open>What leaves the hook layer, in the order it happens.\<close>

datatype action =
    Sys string int "int list"  \<comment> \<open>the real function \<open>name_f(fd, args)\<close>\<close>
  | AddConditionTimer "64 word"  \<comment> \<open>\<open>iom->addConditionTimer(ms, cb, winfo)\<close>\<close>
  | AddEvent int event  \<comment> \<open>\<open>iom->addEvent(fd, event)\<close>\<close>
  | CancelEvent int event  \<comment> \<open>\<open>iom->cancelEvent(fd, event)\<close>\<close>
  | CancelAll int  \<comment> \<open>\<open>iom->cancelAll(fd)\<close>\<close>
  | TimerCancel  \<comment> \<open>\<open>timer->cancel()\<close>\<close>
  | Yield  \<comment> \<open>\<open>Fiber::GetThis()->yield()\<close>\<close>
  | LogError string  \<comment> \<open>\<open>SYLAR_LOG_ERROR\<close>\<close>

text \<open>
  The state the hooks read and write: the thread-local flag \<open>t_hook_enable\<close>, the
  thread's \<open>errno\<close>, the table of \<open>FdMgr\<close>, whether \<open>IOManager::GetThis()\<close> is non-null on this thread, and the static
  \<open>s_connect_timeout\<close>.
\<close>

record world =
  t_hook_enable :: bool
  errno :: int
  fd_mgr :: "int \<Rightarrow> FdCtx option"
  iom_this :: bool
  s_connect_timeout :: "64 word"
  trace :: "action list"
  tick :: nat

text \<open>
  The collaborators' answers. \<open>kernel E t\<close> is what the real function called at tick
  \<open>t\<close> returns and the errno it sets (\<open>None\<close>: errno is left as it was);
  \<open>out_int E t\<close> is the integer it writes through an output pointer;
  \<open>add_event_rt E t\<close> is the result of \<open>addEvent\<close>; \<open>timer_fires E t\<close> says
  whether the condition timer expires while the fiber is suspended at tick \<open>t\<close>.
\<close>

record env =
  kernel :: "nat \<Rightarrow> int \<times> int option"
  out_int :: "nat \<Rightarrow> int"
  add_event_rt :: "nat \<Rightarrow> int"
  timer_fires :: "nat \<Rightarrow> bool"

text \<open>Dereferencing a null \<open>IOManager*\<close> ends the process.\<close>

datatype error = NullIOManager

subsection \<open>Collaborators\<close>

definition log_action :: "action \<Rightarrow> world \<Rightarrow> world" where
  "log_action a w = w\<lparr>trace := trace w @ [a]\<rparr>"

definition call_real :: "env \<Rightarrow> string \<Rightarrow> int \<Rightarrow> int list \<Rightarrow> world \<Rightarrow> int \<times> world" where
  "call_real E name fd args w =
     (case kernel E (tick w) of
        (r, e) \<Rightarrow>
          (r, w\<lparr>errno := (case e of None \<Rightarrow> errno w | Some x \<Rightarrow> x),
                 trace := trace w @ [Sys name fd args],
                 tick := Suc (tick w)\<rparr>))"

text \<open>
  Modelled from the spec: \<open>FdMgr\<close> (fd_manager.cc is not among the sources) is a table
  from descriptors to contexts. \<open>get(fd)\<close> is the lookup \<open>fd_mgr w fd\<close>;
  \<open>del(fd)\<close> drops the entry. A context is shared with the table, so a setter called
  on it is a write to the table (\<open>FdMgr_put\<close>).
\<close>

definition FdMgr_del :: "int \<Rightarrow> world \<Rightarrow> world" where
  "FdMgr_del fd w = w\<lparr>fd_mgr := (fd_mgr w)(fd := None)\<rparr>"

definition FdMgr_put :: "int \<Rightarrow> FdCtx \<Rightarrow> world \<Rightarrow> world" where
  "FdMgr_put fd ctx w = w\<lparr>fd_mgr := (fd_mgr w)(fd \<mapsto> ctx)\<rparr>"

text \<open>
  Modelled from the spec: \<open>IOManager::addEvent\<close> (iomanager.cc is not among the
  sources) registers the running fiber for the event and returns 0 on success; what it
  returns is the environment's choice.
\<close>

definition iom_addEvent :: "env \<Rightarrow> int \<Rightarrow> event \<Rightarrow> world \<Rightarrow> int \<times> world" where
  "iom_addEvent E fd ev w =
     (add_event_rt E (tick w),
      w\<lparr>trace := trace w @ [AddEvent fd ev], tick := Suc (tick w)\<rparr>)"

subsection \<open>The timeout callbacks\<close>

text \<open>
  The lambda handed to \<open>addConditionTimer\<close> in \<open>do_io\<close>. Its first argument is the
  result of \<open>winfo.lock()\<close>: \<open>None\<close> when the \<open>timer_info\<close> is gone. It returns
  the \<open>timer_info\<close> as it leaves it.
\<close>

definition do_io_timer_cb ::
  "int \<Rightarrow> event \<Rightarrow> timer_info option \<Rightarrow> world \<Rightarrow> timer_info option \<times> world" where
  "do_io_timer_cb fd ev t w =
     (case t of
        None \<Rightarrow> (None, w)
      | Some ti \<Rightarrow>
          if cancelled ti \<noteq> 0 then (Some ti, w)
          else (Some (ti\<lparr>cancelled := ETIMEDOUT\<rparr>), log_action (CancelEvent fd ev) w))"

text \<open>The lambda of \<open>connect_with_timeout\<close>: the same, on the WRITE event.\<close>

definition connect_timer_cb ::
  "int \<Rightarrow> timer_info option \<Rightarrow> world \<Rightarrow> timer_info option \<times> world" where
  "connect_timer_cb fd t w =
     (case t of
        None \<Rightarrow> (None, w)
      | Some ti \<Rightarrow>
          if cancelled ti \<noteq> 0 then (Some ti, w)
          else (Some (ti\<lparr>cancelled := ETIMEDOUT\<rparr>), log_action (CancelEvent fd WRITE) w))"

text \<open>
  Modelled from the spec: \<open>Fiber::yield\<close> and the condition timer (fiber.cc and
  timer.cc are not among the sources). The fiber is suspended until its event fires or is
  cancelled. While it is suspended its \<open>timer_info\<close> is alive, so the weak reference
  of an armed timer upgrades; when the environment lets the timer expire, the IOManager runs
  the callback, whose \<open>cancelEvent\<close> resumes the fiber.
\<close>

definition fiber_yield ::
  "env \<Rightarrow> (timer_info option \<Rightarrow> world \<Rightarrow> timer_info option \<times> world) \<Rightarrow> bool \<Rightarrow>
   timer_info \<Rightarrow> world \<Rightarrow> timer_info \<times> world" where
  "fiber_yield E cb timer tinfo w =
     (let w1 = w\<lparr>trace := trace w @ [Yield], tick := Suc (tick w)\<rparr> in
      if timer \<and> timer_fires E (tick w) then
        (case cb (Some tinfo) w1 of
           (t', w2) \<Rightarrow> ((case t' of None \<Rightarrow> tinfo | Some ti \<Rightarrow> ti), w2))
      else (tinfo, w1))"

subsection \<open>\<open>do_io\<close>\<close>

text \<open>The inner \<open>while(n == -1 && errno == EINTR)\<close> loop.\<close>

partial_function (option) eintr_loop ::
  "env \<Rightarrow> string \<Rightarrow> int \<Rightarrow> int list \<Rightarrow> int \<Rightarrow> world \<Rightarrow> (int \<times> world) option" where
  "eintr_loop E name fd args n w =
     (if n = -1 \<and> errno w = EINTR then
        (case call_real E name fd args w of (n', w') \<Rightarrow> eintr_loop E name fd args n' w')
      else Some (n, w))"

text \<open>
  \<open>do_io\<close> from the label \<open>retry\<close> on. \<open>to\<close> is the timeout read from the context
  and \<open>tinfo\<close> the \<open>timer_info\<close> allocated before the label. The function may run
  forever (a kernel that answers EINTR or EAGAIN for ever): not returning is \<open>None\<close>.
\<close>

partial_function (option) do_io_retry ::
  "env \<Rightarrow> int \<Rightarrow> string \<Rightarrow> event \<Rightarrow> int list \<Rightarrow> 64 word \<Rightarrow> timer_info \<Rightarrow> world \<Rightarrow>
   ((error + int) \<times> world) option" where
  "do_io_retry E fd name ev args to tinfo w =
     (case call_real E name fd args w of
        (n0, w0) \<Rightarrow>
          Option.bind (eintr_loop E name fd args n0 w0)
            (\<lambda>(n, w1).
               if n = -1 \<and> errno w1 = EAGAIN then
                 if \<not> iom_this w1 then Some (Inl NullIOManager, w1)
                 else
                   (let timer = (to \<noteq> - 1);
                        w2 = (if timer then log_action (AddConditionTimer to) w1 else w1)
                    in case iom_addEvent E fd ev w2 of
                         (rt, w3) \<Rightarrow>
                           if rt \<noteq> 0 then
                             (let w4 = log_action (LogError (name @ '' addEvent'')) w3;
                                  w5 = (if timer then log_action TimerCancel w4 else w4)
                              in Some (Inr (- 1), w5))
                           else
                             (case fiber_yield E (do_io_timer_cb fd ev) timer tinfo w3 of
                                (tinfo', w4) \<Rightarrow>
                                  (let w5 = (if timer then log_action TimerCancel w4 else w4)
                                   in if cancelled tinfo' \<noteq> 0
                                      then Some (Inr (- 1), w5\<lparr>errno := cancelled tinfo'\<rparr>)
                                      else do_io_retry E fd name ev args to tinfo' w5)))
               else Some (Inr n, w1)))"

text \<open>The call of the real function and nothing else.\<close>

definition delegate ::
  "env \<Rightarrow> string \<Rightarrow> int \<Rightarrow> int list \<Rightarrow> world \<Rightarrow> (error + int) \<times> world" where
  "delegate E name fd args w =
     (case call_real E name fd args w of (n, w') \<Rightarrow> (Inr n, w'))"

definition do_io ::
  "env \<Rightarrow> int \<Rightarrow> string \<Rightarrow> event \<Rightarrow> int \<Rightarrow> int list \<Rightarrow> world \<Rightarrow>
   ((error + int) \<times> world) option" where
  "do_io E fd name ev timeout_so args w =
     (if \<not> t_hook_enable w then Some (delegate E name fd args w)
      else
        (case fd_mgr w fd of
           None \<Rightarrow> Some (delegate E name fd args w)
         | Some ctx \<Rightarrow>
             if isClose ctx then Some (Inr (- 1), w\<lparr>errno := EBADF\<rparr>)
             else if \<not> isSocket ctx \<or> getUserNonblock ctx
               then Some (delegate E name fd args w)
             else do_io_retry E fd name ev args (getTimeout timeout_so ctx)
                    \<lparr>cancelled = 0\<rparr> w))"

text \<open>
  The ten hooks that are \<open>do_io\<close> with a name, a direction and a timeout selector
  (\<open>accept\<close> registers the new descriptor afterwards and is not among them;
  \<open>write\<close> is a keyword of Isabelle, hence \<open>write_hook\<close>).
\<close>

definition read :: "env \<Rightarrow> int \<Rightarrow> int list \<Rightarrow> world \<Rightarrow> ((error + int) \<times> world) option" where
  "read E fd args w = do_io E fd ''read'' READ SO_RCVTIMEO args w"

definition readv :: "env \<Rightarrow> int \<Rightarrow> int list \<Rightarrow> world \<Rightarrow> ((error + int) \<times> world) option" where
  "readv E fd args w = do_io E fd ''readv'' READ SO_RCVTIMEO args w"

definition recv :: "env \<Rightarrow> int \<Rightarrow> int list \<Rightarrow> world \<Rightarrow> ((error + int) \<times> world) option" where
  "recv E fd args w = do_io E fd ''recv'' READ SO_RCVTIMEO args w"

definition recvfrom :: "env \<Rightarrow> int \<Rightarrow> int list \<Rightarrow> world \<Rightarrow> ((error + int) \<times> world) option" where
  "recvfrom E fd args w = do_io E fd ''recvfrom'' READ SO_RCVTIMEO args w"

definition recvmsg :: "env \<Rightarrow> int \<Rightarrow> int list \<Rightarrow> world \<Rightarrow> ((error + int) \<times> world) option" where
  "recvmsg E fd args w = do_io E fd ''recvmsg'' READ SO_RCVTIMEO args w"

definition write_hook :: "env \<Rightarrow> int \<Rightarrow> int list \<Rightarrow> world \<Rightarrow> ((error + int) \<times> world) option" where
  "write_hook E fd args w = do_io E fd ''write'' WRITE SO_SNDTIMEO args w"

definition writev :: "env \<Rightarrow> int \<Rightarrow> int list \<Rightarrow> world \<Rightarrow> ((error + int) \<times> world) option" where
  "writev E fd args w = do_io E fd ''writev'' WRITE SO_SNDTIMEO args w"

definition send :: "env \<Rightarrow> int \<Rightarrow> int list \<Rightarrow> world \<Rightarrow> ((error + int) \<times> world) option" where
  "send E fd args w = do_io E fd ''send'' WRITE SO_SNDTIMEO args w"

definition sendto :: "env \<Rightarrow> int \<Rightarrow> int list \<Rightarrow> world \<Rightarrow> ((error + int) \<times> world) option" where
  "sendto E fd args w = do_io E fd ''sendto'' WRITE SO_SNDTIMEO args w"

definition sendmsg :: "env \<Rightarrow> int \<Rightarrow> int list \<Rightarrow> world \<Rightarrow> ((error + int) \<times> world) option" where
  "sendmsg E fd args w = do_io E fd ''sendmsg'' WRITE SO_SNDTIMEO args w"

subsection \<open>\<open>getsockopt\<close>, \<open>setsockopt\<close>\<close>

text \<open>\<open>getsockopt\<close> is the real function; the second component is what it writes to
  \<open>*optval\<close>.\<close>

definition getsockopt :: "env \<Rightarrow> int \<Rightarrow> int \<Rightarrow> int \<Rightarrow> world \<Rightarrow> int \<times> int \<times> world" where
  "getsockopt E sockfd level optname w =
     (case call_real E ''getsockopt'' sockfd [level, optname] w of
        (r, w') \<Rightarrow> (r, out_int E (tick w), w'))"

text \<open>\<open>v->tv_sec * 1000 + v->tv_usec / 1000\<close>: signed 64-bit arithmetic, the division
  truncating towards zero, the result converted to \<open>uint64_t\<close>.\<close>

definition timeval_ms :: "timeval \<Rightarrow> 64 word" where
  "timeval_ms v = word_of_int (sint (tv_sec v) * 1000 + sint (tv_usec v) sdiv 1000)"

text \<open>\<open>optval\<close> is the memory the pointer refers to, read as a \<open>timeval\<close>.\<close>

definition setsockopt :: "env \<Rightarrow> int \<Rightarrow> int \<Rightarrow> int \<Rightarrow> timeval \<Rightarrow> world \<Rightarrow> int \<times> world" where
  "setsockopt E sockfd level optname optval w =
     (if \<not> t_hook_enable w then call_real E ''setsockopt'' sockfd [level, optname] w
      else
        (let w1 =
           (if level = SOL_SOCKET \<and> (optname = SO_RCVTIMEO \<or> optname = SO_SNDTIMEO) then
              (case fd_mgr w sockfd of
                 None \<Rightarrow> w
               | Some ctx \<Rightarrow> FdMgr_put sockfd (setTimeout optname (timeval_ms optval) ctx) w)
            else w)
         in call_real E ''setsockopt'' sockfd [level, optname] w1))"

subsection \<open>\<open>connect\<close>\<close>

text \<open>The end of \<open>connect_with_timeout\<close>, which both branches of the test on
  \<open>addEvent\<close>'s result reach: the socket's pending error decides.\<close>

definition connect_so_error :: "env \<Rightarrow> int \<Rightarrow> world \<Rightarrow> (error + int) \<times> world" where
  "connect_so_error E fd w =
     (case getsockopt E fd SOL_SOCKET SO_ERROR w of
        (r, err, w') \<Rightarrow>
          if r = - 1 then (Inr (- 1), w')
          else if err = 0 then (Inr 0, w')
          else (Inr (- 1), w'\<lparr>errno := err\<rparr>))"

definition connect_with_timeout ::
  "env \<Rightarrow> int \<Rightarrow> int list \<Rightarrow> 64 word \<Rightarrow> world \<Rightarrow> (error + int) \<times> world" where
  "connect_with_timeout E fd addr timeout_ms w =
     (if \<not> t_hook_enable w then delegate E ''connect'' fd addr w
      else
        (case fd_mgr w fd of
           None \<Rightarrow> (Inr (- 1), w\<lparr>errno := EBADF\<rparr>)
         | Some ctx \<Rightarrow>
             if isClose ctx then (Inr (- 1), w\<lparr>errno := EBADF\<rparr>)
             else if \<not> isSocket ctx then delegate E ''connect'' fd addr w
             else if getUserNonblock ctx then delegate E ''connect'' fd addr w
             else
               (case call_real E ''connect'' fd addr w of
                  (n, w1) \<Rightarrow>
                    if n = 0 then (Inr 0, w1)
                    else if n \<noteq> - 1 \<or> errno w1 \<noteq> EINPROGRESS then (Inr n, w1)
                    else if \<not> iom_this w1 then (Inl NullIOManager, w1)
                    else
                      (let tinfo = \<lparr>cancelled = 0\<rparr>;
                           timer = (timeout_ms \<noteq> - 1);
                           w2 = (if timer then log_action (AddConditionTimer timeout_ms) w1
                                 else w1)
                       in case iom_addEvent E fd WRITE w2 of
                            (rt, w3) \<Rightarrow>
                              if rt = 0 then
                                (case fiber_yield E (connect_timer_cb fd) timer tinfo w3 of
                                   (tinfo', w4) \<Rightarrow>
                                     (let w5 = (if timer then log_action TimerCancel w4 else w4)
                                      in if cancelled tinfo' \<noteq> 0
                                         then (Inr (- 1), w5\<lparr>errno := cancelled tinfo'\<rparr>)
                                         else connect_so_error E fd w5))
                              else
                                (let w4 = (if timer then log_action TimerCancel w3 else w3);
                                     w5 = log_action (LogError ''connect addEvent error'') w4
                                 in connect_so_error E fd w5)))))"

definition connect :: "env \<Rightarrow> int \<Rightarrow> int list \<Rightarrow> world \<Rightarrow> (error + int) \<times> world" where
  "connect E sockfd addr w = connect_with_timeout E sockfd addr (s_connect_timeout w) w"

subsection \<open>\<open>close\<close>\<close>

definition close :: "env \<Rightarrow> int \<Rightarrow> world \<Rightarrow> int \<times> world" where
  "close E fd w =
     (if \<not> t_hook_enable w then call_real E ''close'' fd [] w
      else
        (let w1 =
           (case fd_mgr w fd of
              None \<Rightarrow> w
            | Some ctx \<Rightarrow>
                FdMgr_del fd (if iom_this w then log_action (CancelAll fd) w else w))
         in call_real E ''close'' fd [] w1))"

subsection \<open>\<open>fcntl\<close>, \<open>ioctl\<close>\<close>

text \<open>\<open>arg\<close> is the variadic argument (an \<open>int\<close>, or a pointer taken as a number); the
  commands that take none ignore it.\<close>

definition fcntl :: "env \<Rightarrow> int \<Rightarrow> int \<Rightarrow> int \<Rightarrow> world \<Rightarrow> int \<times> world" where
  "fcntl E fd cmd arg w =
     (if cmd = F_SETFL then
        (case fd_mgr w fd of
           None \<Rightarrow> call_real E ''fcntl'' fd [cmd, arg] w
         | Some ctx \<Rightarrow>
             if isClose ctx \<or> \<not> isSocket ctx then call_real E ''fcntl'' fd [cmd, arg] w
             else
               (let ctx' = setUserNonblock (arg AND O_NONBLOCK \<noteq> 0) ctx;
                    w1 = FdMgr_put fd ctx' w;
                    arg' = (if getSysNonblock ctx' then arg OR O_NONBLOCK
                            else arg AND NOT O_NONBLOCK)
                in call_real E ''fcntl'' fd [cmd, arg'] w1))
      else if cmd = F_GETFL then
        (case call_real E ''fcntl'' fd [cmd] w of
           (arg, w1) \<Rightarrow>
             (case fd_mgr w1 fd of
                None \<Rightarrow> (arg, w1)
              | Some ctx \<Rightarrow>
                  if isClose ctx \<or> \<not> isSocket ctx then (arg, w1)
                  else if getUserNonblock ctx then (arg OR O_NONBLOCK, w1)
                  else (arg AND NOT O_NONBLOCK, w1)))
      else if cmd \<in> set [F_DUPFD, F_DUPFD_CLOEXEC, F_SETFD, F_SETOWN, F_SETSIG, F_SETLEASE,
                          F_NOTIFY, F_SETPIPE_SZ]
        then call_real E ''fcntl'' fd [cmd, arg] w
      else if cmd \<in> set [F_GETFD, F_GETOWN, F_GETSIG, F_GETLEASE, F_GETPIPE_SZ]
        then call_real E ''fcntl'' fd [cmd] w
      else if cmd \<in> set [F_SETLK, F_SETLKW, F_GETLK]
        then call_real E ''fcntl'' fd [cmd, arg] w
      else if cmd \<in> set [F_GETOWN_EX, F_SETOWN_EX]
        then call_real E ''fcntl'' fd [cmd, arg] w
      else call_real E ''fcntl'' fd [cmd] w)"

text \<open>\<open>arg\<close> is the pointer, \<open>argval\<close> the \<open>int\<close> it points to (read for FIONBIO only).\<close>

definition ioctl :: "env \<Rightarrow> int \<Rightarrow> int \<Rightarrow> int \<Rightarrow> int \<Rightarrow> world \<Rightarrow> int \<times> world" where
  "ioctl E d request arg argval w =
     (if FIONBIO = request then
        (case fd_mgr w d of
           None \<Rightarrow> call_real E ''ioctl'' d [request, arg] w
         | Some ctx \<Rightarrow>
             if isClose ctx \<or> \<not> isSocket ctx then call_real E ''ioctl'' d [request, arg] w
             else call_real E ''ioctl'' d [request, arg]
                    (FdMgr_put d (setUserNonblock (argval \<noteq> 0) ctx) w))
      else call_real E ''ioctl'' d [request, arg] w)"

section \<open>Properties\<close>

subsection \<open>Descriptors, worlds and environments of the examples\<close>

text \<open>
  A world with hooks enabled in which descriptor 3 is a socket the hooks manage, 5 a context
  marked closed, 6 a regular file and every other descriptor unknown to \<open>FdMgr\<close>; and
  an environment whose kernel answers from a list, by tick.
\<close>

definition sock_ctx :: FdCtx where
  "sock_ctx = \<lparr>is_init = True, is_socket = True, is_closed = False, sys_nonblock = True,
     user_nonblock = False, recv_timeout_ms = 100, send_timeout_ms = - 1\<rparr>"

definition closed_ctx :: FdCtx where
  "closed_ctx = sock_ctx\<lparr>is_closed := True\<rparr>"

definition file_ctx :: FdCtx where
  "file_ctx = sock_ctx\<lparr>is_socket := False, sys_nonblock := False\<rparr>"

definition demo_world :: world where
  "demo_world =
     \<lparr>t_hook_enable = True, errno = 0,
      fd_mgr = (\<lambda>fd. if fd = 3 then Some sock_ctx
                    else if fd = 5 then Some closed_ctx
                    else if fd = 6 then Some file_ctx else None),
      iom_this = True, s_connect_timeout = 5000, trace = [], tick = 0\<rparr>"

definition scripted :: "(int \<times> int option) list \<Rightarrow> int \<Rightarrow> int \<Rightarrow> bool \<Rightarrow> env" where
  "scripted ks out rt fires =
     \<lparr>kernel = (\<lambda>t. if t < length ks then ks ! t else (0, None)),
      out_int = (\<lambda>t. out), add_event_rt = (\<lambda>t. rt), timer_fires = (\<lambda>t. fires)\<rparr>"

subsection \<open>Auxiliary facts\<close>

lemmas errno_defs = EINTR_def EBADF_def EAGAIN_def ETIMEDOUT_def EINPROGRESS_def

lemmas fcntl_cmd_defs =
  F_DUPFD_def F_GETFD_def F_SETFD_def F_GETFL_def F_SETFL_def F_GETLK_def F_SETLK_def
  F_SETLKW_def F_SETOWN_def F_GETOWN_def F_SETSIG_def F_GETSIG_def F_SETOWN_EX_def
  F_GETOWN_EX_def F_SETLEASE_def F_GETLEASE_def F_NOTIFY_def F_DUPFD_CLOEXEC_def
  F_SETPIPE_SZ_def F_GETPIPE_SZ_def

lemmas sockopt_defs = SOL_SOCKET_def SO_ERROR_def SO_RCVTIMEO_def SO_SNDTIMEO_def

lemma call_real_eq:
  "call_real E name fd args w =
     (fst (kernel E (tick w)),
      w\<lparr>errno := (case snd (kernel E (tick w)) of None \<Rightarrow> errno w | Some x \<Rightarrow> x),
        trace := trace w @ [Sys name fd args], tick := Suc (tick w)\<rparr>)"
  by (simp add: call_real_def split: prod.splits)

lemma delegate_eq:
  "delegate E name fd args w =
     (Inr (fst (kernel E (tick w))),
      w\<lparr>errno := (case snd (kernel E (tick w)) of None \<Rightarrow> errno w | Some x \<Rightarrow> x),
        trace := trace w @ [Sys name fd args], tick := Suc (tick w)\<rparr>)"
  by (simp add: delegate_def call_real_eq)

lemma or_and_same: "(a OR m) AND m = (m::int)"
  by (auto simp: bit_eq_iff bit_simps)

lemma andnot_and_same: "(a AND NOT m) AND m = (0::int)"
  by (simp add: bit_eq_iff bit_simps)

lemma O_NONBLOCK_nonzero: "O_NONBLOCK \<noteq> 0"
  by (simp add: O_NONBLOCK_def)

text \<open>One round of the EINTR loop, and its exit.\<close>

lemma eintr_loop_done:
  "\<not> (n = - 1 \<and> errno w = EINTR) \<Longrightarrow> eintr_loop E name fd args n w = Some (n, w)"
  by (subst eintr_loop.simps) auto

lemma eintr_loop_again:
  "n = - 1 \<Longrightarrow> errno w = EINTR \<Longrightarrow>
   eintr_loop E name fd args n w =
     (case call_real E name fd args w of (n', w') \<Rightarrow> eintr_loop E name fd args n' w')"
  by (subst eintr_loop.simps) simp

text \<open>
  An answer \<open>-1\<close> with EINTR at the label \<open>retry\<close> costs one real call and leads
  back to the label; so do \<open>k\<close> of them in a row.
\<close>

lemma do_io_retry_eintr_step:
  assumes "kernel E (tick w) = (- 1, Some EINTR)"
  shows "do_io_retry E fd name ev args to tinfo w =
         do_io_retry E fd name ev args to tinfo
           (w\<lparr>errno := EINTR, trace := trace w @ [Sys name fd args], tick := Suc (tick w)\<rparr>)"
proof -
  let ?w0 = "w\<lparr>errno := EINTR, trace := trace w @ [Sys name fd args], tick := Suc (tick w)\<rparr>"
  have c: "call_real E name fd args w = (- 1, ?w0)"
    using assms by (simp add: call_real_eq)
  have l: "eintr_loop E name fd args (- 1) ?w0 =
           (case call_real E name fd args ?w0 of (n', w') \<Rightarrow> eintr_loop E name fd args n' w')"
    by (rule eintr_loop_again) simp_all
  show ?thesis
    apply (subst do_io_retry.simps)
    apply (subst (2) do_io_retry.simps)
    apply (simp only: c l prod.case)
    apply (simp split: prod.splits)
    done
qed

lemma do_io_retry_eintr_steps:
  "(\<forall>i<k. kernel E (tick w + i) = (- 1, Some EINTR)) \<Longrightarrow>
   do_io_retry E fd name ev args to tinfo w =
   do_io_retry E fd name ev args to tinfo
     (w\<lparr>errno := (if k = 0 then errno w else EINTR),
        trace := trace w @ replicate k (Sys name fd args), tick := tick w + k\<rparr>)"
proof (induction k arbitrary: w)
  case 0
  then show ?case by simp
next
  case (Suc k)
  let ?w0 = "w\<lparr>errno := EINTR, trace := trace w @ [Sys name fd args], tick := Suc (tick w)\<rparr>"
  from Suc.prems have k0: "kernel E (tick w) = (- 1, Some EINTR)"
    by (metis add.right_neutral zero_less_Suc)
  from Suc.prems have "\<forall>i<k. kernel E (tick ?w0 + i) = (- 1, Some EINTR)"
    by auto
  from Suc.IH [OF this]
  have "do_io_retry E fd name ev args to tinfo ?w0 =
        do_io_retry E fd name ev args to tinfo
          (w\<lparr>errno := EINTR, trace := trace w @ replicate (Suc k) (Sys name fd args),
             tick := tick w + Suc k\<rparr>)"
    by (cases k) (simp_all add: replicate_app_Cons_same)
  with do_io_retry_eintr_step [OF k0, of fd name ev args to tinfo]
  have "do_io_retry E fd name ev args to tinfo w =
        do_io_retry E fd name ev args to tinfo
          (w\<lparr>errno := EINTR, trace := trace w @ replicate (Suc k) (Sys name fd args),
             tick := tick w + Suc k\<rparr>)"
    by (rule trans)
  then show ?case
    by (simp only: nat.simps if_False)
qed

text \<open>A first answer that is neither EINTR nor EAGAIN is returned at once.\<close>

lemma do_io_retry_plain:
  assumes "call_real E name fd args w = (n, w')"
    and "\<not> (n = - 1 \<and> (errno w' = EINTR \<or> errno w' = EAGAIN))"
  shows "do_io_retry E fd name ev args to tinfo w = Some (Inr n, w')"
proof -
  from assms(2) have "eintr_loop E name fd args n w' = Some (n, w')"
    by (intro eintr_loop_done) auto
  with assms show ?thesis
    by (subst do_io_retry.simps) auto
qed

text \<open>What follows a first answer EAGAIN, with an IOManager on the thread.\<close>

lemma do_io_retry_eagain:
  assumes k: "kernel E (tick w) = (- 1, Some EAGAIN)"
    and iom: "iom_this w"
  shows "do_io_retry E fd name ev args to tinfo w =
     (let w1 = w\<lparr>errno := EAGAIN, trace := trace w @ [Sys name fd args], tick := Suc (tick w)\<rparr>;
          timer = (to \<noteq> - 1);
          w2 = (if timer then log_action (AddConditionTimer to) w1 else w1)
      in case iom_addEvent E fd ev w2 of
           (rt, w3) \<Rightarrow>
             if rt \<noteq> 0 then
               (let w4 = log_action (LogError (name @ '' addEvent'')) w3;
                    w5 = (if timer then log_action TimerCancel w4 else w4)
                in Some (Inr (- 1), w5))
             else
               (case fiber_yield E (do_io_timer_cb fd ev) timer tinfo w3 of
                  (tinfo', w4) \<Rightarrow>
                    (let w5 = (if timer then log_action TimerCancel w4 else w4)
                     in if cancelled tinfo' \<noteq> 0
                        then Some (Inr (- 1), w5\<lparr>errno := cancelled tinfo'\<rparr>)
                        else do_io_retry E fd name ev args to tinfo' w5)))"
proof -
  let ?w1 = "w\<lparr>errno := EAGAIN, trace := trace w @ [Sys name fd args], tick := Suc (tick w)\<rparr>"
  have c: "call_real E name fd args w = (- 1, ?w1)"
    using k by (simp add: call_real_eq)
  have l: "eintr_loop E name fd args (- 1) ?w1 = Some (- 1, ?w1)"
    by (rule eintr_loop_done) (simp add: errno_defs)
  have i: "iom_this ?w1" "errno ?w1 = EAGAIN"
    using iom by simp_all
  show ?thesis
    apply (subst do_io_retry.simps)
    apply (simp only: c l prod.case Option.bind.simps i)
    apply (simp only: Let_def simp_thms if_True if_False)
    done
qed

text \<open>Past its tests, \<open>do_io\<close> is the loop with the context's timeout and a fresh
  \<open>timer_info\<close>.\<close>

lemma do_io_socket:
  "t_hook_enable w \<Longrightarrow> fd_mgr w fd = Some ctx \<Longrightarrow> \<not> isClose ctx \<Longrightarrow> isSocket ctx \<Longrightarrow>
   \<not> getUserNonblock ctx \<Longrightarrow>
   do_io E fd name ev so args w =
     do_io_retry E fd name ev args (getTimeout so ctx) \<lparr>cancelled = 0\<rparr> w"
  by (simp add: do_io_def)

text \<open>The resumption after a registration that succeeded, for any \<open>timer_info\<close>.\<close>

lemma do_io_retry_resume:
  assumes k: "kernel E (tick w) = (- 1, Some EAGAIN)"
    and iom: "iom_this w"
    and rt: "add_event_rt E (Suc (tick w)) = 0"
  shows "do_io_retry E fd name ev args to tinfo w =
     (case fiber_yield E (do_io_timer_cb fd ev) (to \<noteq> - 1) tinfo
             (w\<lparr>errno := EAGAIN,
                trace := trace w @ Sys name fd args #
                  (if to \<noteq> - 1 then [AddConditionTimer to] else []) @ [AddEvent fd ev],
                tick := tick w + 2\<rparr>) of
        (tinfo', w4) \<Rightarrow>
          if cancelled tinfo' \<noteq> 0 then
            Some (Inr (- 1),
              w4\<lparr>errno := cancelled tinfo',
                 trace := trace w4 @ (if to \<noteq> - 1 then [TimerCancel] else [])\<rparr>)
          else do_io_retry E fd name ev args to tinfo'
                 (w4\<lparr>trace := trace w4 @ (if to \<noteq> - 1 then [TimerCancel] else [])\<rparr>))"
proof (cases "to = - 1")
  case True
  then show ?thesis
    using rt by (simp add: do_io_retry_eagain [OF k iom] iom_addEvent_def log_action_def
        split: prod.splits)
next
  case False
  then show ?thesis
    using rt by (simp add: do_io_retry_eagain [OF k iom] iom_addEvent_def log_action_def
        split: prod.splits)
qed

subsection \<open>The tests \<open>do_io\<close> makes before any I/O\<close>

text \<open>
  Claim C3. With the hook flag set, \<open>do_io\<close> on a descriptor without an \<open>FdCtx\<close>
  is the call of the real function; on a context that reports closed it returns \<open>-1\<close>
  with errno \<open>EBADF\<close> and does nothing else; on a context that is not a socket, or
  that the user made non-blocking, it is the call of the real function.
\<close>

theorem do_io_preamble:
  "t_hook_enable w \<longrightarrow>
     (fd_mgr w fd = None \<longrightarrow>
        do_io E fd name ev so args w = Some (delegate E name fd args w)) \<and>
     (fd_mgr w fd = Some ctx \<and> isClose ctx \<longrightarrow>
        do_io E fd name ev so args w = Some (Inr (- 1), w\<lparr>errno := EBADF\<rparr>)) \<and>
     (fd_mgr w fd = Some ctx \<and> \<not> isClose ctx \<and> (\<not> isSocket ctx \<or> getUserNonblock ctx) \<longrightarrow>
        do_io E fd name ev so args w = Some (delegate E name fd args w))"
  by (simp add: do_io_def)

theorem do_io_preamble_witness:
  "do_io (scripted [(7, None)] 0 0 False) 4 ''read'' READ SO_RCVTIMEO [] demo_world =
     Some (Inr 7, demo_world\<lparr>trace := [Sys ''read'' 4 []], tick := 1\<rparr>) \<and>
   do_io (scripted [(7, None)] 0 0 False) 5 ''read'' READ SO_RCVTIMEO [] demo_world =
     Some (Inr (- 1), demo_world\<lparr>errno := 9\<rparr>) \<and>
   do_io (scripted [(7, None)] 0 0 False) 6 ''read'' READ SO_RCVTIMEO [] demo_world =
     Some (Inr 7, demo_world\<lparr>trace := [Sys ''read'' 6 []], tick := 1\<rparr>)"
  using do_io_preamble [where w = demo_world and fd = 4 and ctx = sock_ctx
      and E = "scripted [(7, None)] 0 0 False" and name = "''read''" and ev = READ
      and so = SO_RCVTIMEO and args = "[]"]
    do_io_preamble [where w = demo_world and fd = 5 and ctx = closed_ctx
      and E = "scripted [(7, None)] 0 0 False" and name = "''read''" and ev = READ
      and so = SO_RCVTIMEO and args = "[]"]
    do_io_preamble [where w = demo_world and fd = 6 and ctx = file_ctx
      and E = "scripted [(7, None)] 0 0 False" and name = "''read''" and ev = READ
      and so = SO_RCVTIMEO and args = "[]"]
  by (simp add: demo_world_def delegate_eq scripted_def EBADF_def isClose_def isSocket_def
      closed_ctx_def file_ctx_def sock_ctx_def)

subsection \<open>The EINTR loop of \<open>do_io\<close>\<close>

text \<open>
  Claim C6. Past its tests \<open>do_io\<close> is the loop that starts at the label
  \<open>retry\<close>. Whenever the loop is entered in a world \<open>w\<close> and the real function
  answers \<open>-1\<close> with errno EINTR \<open>k\<close> times in a row, it behaves as the loop entered
  in the world \<open>wk\<close> that differs from \<open>w\<close> only by errno, by \<open>k\<close> calls of the
  real function in the trace and by the tick: nothing was registered and the fiber did not
  yield. When the next answer is neither EINTR nor EAGAIN it is returned, after
  \<open>k + 1\<close> real calls and nothing else.
\<close>

theorem do_io_eintr_retry:
  "(t_hook_enable w \<and> fd_mgr w fd = Some ctx \<and> \<not> isClose ctx \<and> isSocket ctx \<and>
    \<not> getUserNonblock ctx \<longrightarrow>
      do_io E fd name ev so args w =
        do_io_retry E fd name ev args (getTimeout so ctx) \<lparr>cancelled = 0\<rparr> w) \<and>
   ((\<forall>i<k. kernel E (tick w + i) = (- 1, Some EINTR)) \<and>
    wk = w\<lparr>errno := (if k = 0 then errno w else EINTR),
           trace := trace w @ replicate k (Sys name fd args), tick := tick w + k\<rparr> \<longrightarrow>
      do_io_retry E fd name ev args to tinfo w = do_io_retry E fd name ev args to tinfo wk \<and>
      (call_real E name fd args wk = (n, w') \<and>
       \<not> (n = - 1 \<and> (errno w' = EINTR \<or> errno w' = EAGAIN)) \<longrightarrow>
         do_io_retry E fd name ev args to tinfo w = Some (Inr n, w') \<and>
         trace w' = trace w @ replicate (Suc k) (Sys name fd args)))"
proof (intro conjI impI; (elim conjE)?)
  assume "t_hook_enable w" "fd_mgr w fd = Some ctx" "\<not> isClose ctx" "isSocket ctx"
    "\<not> getUserNonblock ctx"
  then show "do_io E fd name ev so args w =
      do_io_retry E fd name ev args (getTimeout so ctx) \<lparr>cancelled = 0\<rparr> w"
    by (rule do_io_socket)
next
  assume eintr: "\<forall>i<k. kernel E (tick w + i) = (- 1, Some EINTR)"
    and wk: "wk = w\<lparr>errno := (if k = 0 then errno w else EINTR),
          trace := trace w @ replicate k (Sys name fd args), tick := tick w + k\<rparr>"
  show "do_io_retry E fd name ev args to tinfo w = do_io_retry E fd name ev args to tinfo wk"
    unfolding wk using eintr by (rule do_io_retry_eintr_steps)
next
  assume eintr: "\<forall>i<k. kernel E (tick w + i) = (- 1, Some EINTR)"
    and wk: "wk = w\<lparr>errno := (if k = 0 then errno w else EINTR),
          trace := trace w @ replicate k (Sys name fd args), tick := tick w + k\<rparr>"
    and r: "call_real E name fd args wk = (n, w')"
    and ne: "\<not> (n = - 1 \<and> (errno w' = EINTR \<or> errno w' = EAGAIN))"
  have "do_io_retry E fd name ev args to tinfo w = do_io_retry E fd name ev args to tinfo wk"
    unfolding wk using eintr by (rule do_io_retry_eintr_steps)
  also from r ne have "\<dots> = Some (Inr n, w')"
    by (rule do_io_retry_plain)
  finally show "do_io_retry E fd name ev args to tinfo w = Some (Inr n, w')" .
next
  assume wk: "wk = w\<lparr>errno := (if k = 0 then errno w else EINTR),
          trace := trace w @ replicate k (Sys name fd args), tick := tick w + k\<rparr>"
    and r: "call_real E name fd args wk = (n, w')"
  then show "trace w' = trace w @ replicate (Suc k) (Sys name fd args)"
    by (auto simp: call_real_eq replicate_append_same)
qed

theorem do_io_eintr_retry_witness:
  "do_io (scripted [(- 1, Some 4), (5, None)] 0 0 False) 3 ''read'' READ SO_RCVTIMEO []
     demo_world =
   Some (Inr 5,
     demo_world\<lparr>errno := 4, trace := [Sys ''read'' 3 [], Sys ''read'' 3 []], tick := 2\<rparr>)"
proof -
  let ?E = "scripted [(- 1, Some 4), (5, None)] 0 0 False"
  let ?wk = "demo_world\<lparr>errno := 4, trace := [Sys ''read'' 3 []], tick := 1\<rparr>"
  let ?w' = "demo_world\<lparr>errno := 4, trace := [Sys ''read'' 3 [], Sys ''read'' 3 []],
    tick := 2\<rparr>"
  note inst = do_io_eintr_retry [where w = demo_world and fd = 3 and ctx = sock_ctx and k = 1
      and E = ?E and name = "''read''" and ev = READ and so = SO_RCVTIMEO and args = "[]"
      and n = 5 and wk = ?wk and w' = ?w' and to = 100 and tinfo = "\<lparr>cancelled = 0\<rparr>"]
  have p0: "t_hook_enable demo_world \<and> fd_mgr demo_world 3 = Some sock_ctx \<and>
     \<not> isClose sock_ctx \<and> isSocket sock_ctx \<and> \<not> getUserNonblock sock_ctx"
    by (simp add: demo_world_def sock_ctx_def isClose_def isSocket_def getUserNonblock_def)
  have p1: "(\<forall>i<1. kernel ?E (tick demo_world + i) = (- 1, Some EINTR)) \<and>
     ?wk = demo_world\<lparr>errno := (if (1::nat) = 0 then errno demo_world else EINTR),
          trace := trace demo_world @ replicate 1 (Sys ''read'' 3 []),
          tick := tick demo_world + 1\<rparr>"
    by (simp add: demo_world_def scripted_def EINTR_def)
  have p2: "call_real ?E ''read'' 3 [] ?wk = (5, ?w') \<and>
     \<not> (5 = (- 1 :: int) \<and> (errno ?w' = EINTR \<or> errno ?w' = EAGAIN))"
    by (simp add: call_real_eq demo_world_def scripted_def)
  have to: "getTimeout SO_RCVTIMEO sock_ctx = 100"
    by (simp add: getTimeout_def sock_ctx_def)
  from inst [THEN conjunct1, THEN mp, OF p0]
    inst [THEN conjunct2, THEN mp, OF p1, THEN conjunct2, THEN mp, OF p2, THEN conjunct1]
  show ?thesis
    by (simp only: to)
qed

subsection \<open>Resuming after the yield in \<open>do_io\<close>\<close>

text \<open>
  Claim C2. Past its tests \<open>do_io\<close> is the loop that starts at the label
  \<open>retry\<close>. Whenever the loop is entered, the real call answers \<open>-1\<close> with EAGAIN
  and the registration succeeds, the fiber yields; with \<open>tinfo'\<close> and \<open>w4\<close> the
  \<open>timer_info\<close> and the world in which it resumes, the timer is cancelled if one was
  armed (\<open>to \<noteq> -1\<close>), and then: if \<open>cancelled tinfo'\<close> is non-zero, errno is set
  to it and \<open>-1\<close> is returned; otherwise the loop is entered again at \<open>retry\<close>.
\<close>

theorem do_io_after_yield:
  "(t_hook_enable w \<and> fd_mgr w fd = Some ctx \<and> \<not> isClose ctx \<and> isSocket ctx \<and>
    \<not> getUserNonblock ctx \<longrightarrow>
      do_io E fd name ev so args w =
        do_io_retry E fd name ev args (getTimeout so ctx) \<lparr>cancelled = 0\<rparr> w) \<and>
   (kernel E (tick w) = (- 1, Some EAGAIN) \<and> iom_this w \<and> add_event_rt E (Suc (tick w)) = 0 \<longrightarrow>
      do_io_retry E fd name ev args to tinfo w =
        (case fiber_yield E (do_io_timer_cb fd ev) (to \<noteq> - 1) tinfo
                (w\<lparr>errno := EAGAIN,
                   trace := trace w @ Sys name fd args #
                     (if to \<noteq> - 1 then [AddConditionTimer to] else []) @ [AddEvent fd ev],
                   tick := tick w + 2\<rparr>) of
           (tinfo', w4) \<Rightarrow>
             if cancelled tinfo' \<noteq> 0 then
               Some (Inr (- 1),
                 w4\<lparr>errno := cancelled tinfo',
                    trace := trace w4 @ (if to \<noteq> - 1 then [TimerCancel] else [])\<rparr>)
             else do_io_retry E fd name ev args to tinfo'
                    (w4\<lparr>trace := trace w4 @ (if to \<noteq> - 1 then [TimerCancel] else [])\<rparr>)))"
proof (intro conjI impI; elim conjE)
  assume "t_hook_enable w" "fd_mgr w fd = Some ctx" "\<not> isClose ctx" "isSocket ctx"
    "\<not> getUserNonblock ctx"
  then show "do_io E fd name ev so args w =
      do_io_retry E fd name ev args (getTimeout so ctx) \<lparr>cancelled = 0\<rparr> w"
    by (rule do_io_socket)
next
  assume "kernel E (tick w) = (- 1, Some EAGAIN)" "iom_this w"
    "add_event_rt E (Suc (tick w)) = 0"
  then show "do_io_retry E fd name ev args to tinfo w =
        (case fiber_yield E (do_io_timer_cb fd ev) (to \<noteq> - 1) tinfo
                (w\<lparr>errno := EAGAIN,
                   trace := trace w @ Sys name fd args #
                     (if to \<noteq> - 1 then [AddConditionTimer to] else []) @ [AddEvent fd ev],
                   tick := tick w + 2\<rparr>) of
           (tinfo', w4) \<Rightarrow>
             if cancelled tinfo' \<noteq> 0 then
               Some (Inr (- 1),
                 w4\<lparr>errno := cancelled tinfo',
                    trace := trace w4 @ (if to \<noteq> - 1 then [TimerCancel] else [])\<rparr>)
             else do_io_retry E fd name ev args to tinfo'
                    (w4\<lparr>trace := trace w4 @ (if to \<noteq> - 1 then [TimerCancel] else [])\<rparr>))"
    by (rule do_io_retry_resume)
qed

theorem do_io_after_yield_witness:
  "do_io (scripted [(- 1, Some 11)] 0 0 True) 3 ''read'' READ SO_RCVTIMEO [] demo_world =
     Some (Inr (- 1),
       demo_world\<lparr>errno := 110,
         trace := [Sys ''read'' 3 [], AddConditionTimer 100, AddEvent 3 READ, Yield,
                   CancelEvent 3 READ, TimerCancel],
         tick := 3\<rparr>)"
  using do_io_after_yield [where w = demo_world and fd = 3 and ctx = sock_ctx and to = 100
      and so = SO_RCVTIMEO and E = "scripted [(- 1, Some 11)] 0 0 True" and name = "''read''"
      and ev = READ and args = "[]" and tinfo = "\<lparr>cancelled = 0\<rparr>"]
  by (simp add: demo_world_def sock_ctx_def scripted_def isClose_def isSocket_def
      getUserNonblock_def getTimeout_def fiber_yield_def do_io_timer_cb_def log_action_def
      errno_defs)

subsection \<open>The timeout callbacks\<close>

text \<open>
  Claim C8. The callbacks \<open>do_io\<close> and \<open>connect_with_timeout\<close> hand to
  \<open>addConditionTimer\<close> leave the world as it is when the weak reference does not
  upgrade, and when \<open>cancelled\<close> is already non-zero; otherwise they set
  \<open>cancelled\<close> to \<open>ETIMEDOUT\<close> and call \<open>cancelEvent\<close> once.
\<close>

theorem timeout_callback_guard:
  "do_io_timer_cb fd ev None w = (None, w) \<and>
   connect_timer_cb fd None w = (None, w) \<and>
   (cancelled ti \<noteq> 0 \<longrightarrow>
      do_io_timer_cb fd ev (Some ti) w = (Some ti, w) \<and>
      connect_timer_cb fd (Some ti) w = (Some ti, w)) \<and>
   (cancelled ti = 0 \<longrightarrow>
      do_io_timer_cb fd ev (Some ti) w =
        (Some (ti\<lparr>cancelled := ETIMEDOUT\<rparr>), w\<lparr>trace := trace w @ [CancelEvent fd ev]\<rparr>) \<and>
      connect_timer_cb fd (Some ti) w =
        (Some (ti\<lparr>cancelled := ETIMEDOUT\<rparr>), w\<lparr>trace := trace w @ [CancelEvent fd WRITE]\<rparr>))"
  by (simp add: do_io_timer_cb_def connect_timer_cb_def log_action_def)

theorem timeout_callback_guard_witness:
  "do_io_timer_cb 3 READ None demo_world = (None, demo_world) \<and>
   do_io_timer_cb 3 READ (Some \<lparr>cancelled = 110\<rparr>) demo_world =
     (Some \<lparr>cancelled = 110\<rparr>, demo_world) \<and>
   do_io_timer_cb 3 READ (Some \<lparr>cancelled = 0\<rparr>) demo_world =
     (Some \<lparr>cancelled = 110\<rparr>, demo_world\<lparr>trace := [CancelEvent 3 READ]\<rparr>) \<and>
   connect_timer_cb 3 (Some \<lparr>cancelled = 0\<rparr>) demo_world =
     (Some \<lparr>cancelled = 110\<rparr>, demo_world\<lparr>trace := [CancelEvent 3 WRITE]\<rparr>)"
  using timeout_callback_guard [of 3 READ demo_world "\<lparr>cancelled = 110\<rparr>"]
    timeout_callback_guard [of 3 READ demo_world "\<lparr>cancelled = 0\<rparr>"]
  by (simp add: ETIMEDOUT_def demo_world_def)

subsection \<open>A registration that fails\<close>

text \<open>
  Claim C5. The claim is that whenever \<open>addEvent\<close> returns non-zero, in \<open>do_io\<close>
  or in \<open>connect_with_timeout\<close>, the armed timer is cancelled and the caller sees
  \<open>-1\<close>. \<open>connect_with_timeout\<close> cancels the timer and logs the error, but does
  not return: it goes on to read \<open>SO_ERROR\<close>, and returns 0 when the socket has no
  pending error. Here the real \<open>connect\<close> answers \<open>-1\<close> with EINPROGRESS,
  \<open>addEvent\<close> returns \<open>-1\<close>, \<open>getsockopt\<close> succeeds with \<open>SO_ERROR = 0\<close>,
  and the caller sees 0.
\<close>

theorem connect_addEvent_failure:
  "connect_with_timeout (scripted [(- 1, Some 115), (0, None), (0, None)] 0 (- 1) False) 3 []
     5000 demo_world =
   (Inr 0,
    demo_world\<lparr>errno := 115,
      trace := [Sys ''connect'' 3 [], AddConditionTimer 5000, AddEvent 3 WRITE, TimerCancel,
                LogError ''connect addEvent error'', Sys ''getsockopt'' 3 [SOL_SOCKET, SO_ERROR]],
      tick := 3\<rparr>)"
  by (simp add: connect_with_timeout_def connect_so_error_def getsockopt_def call_real_eq
      iom_addEvent_def log_action_def demo_world_def sock_ctx_def scripted_def isClose_def
      isSocket_def getUserNonblock_def errno_defs sockopt_defs)

theorem connect_addEvent_failure_witness:
  "fst (connect_with_timeout (scripted [(- 1, Some 115), (0, None), (0, None)] 0 (- 1) False)
      3 [] 5000 demo_world) = Inr 0"
  using connect_addEvent_failure by simp

text \<open>
  \<open>do_io\<close> does what the claim says: the timer is cancelled if one was armed, and
  \<open>-1\<close> is returned with the errno of the real call.
\<close>

theorem do_io_addEvent_failure:
  "t_hook_enable w \<and> fd_mgr w fd = Some ctx \<and> \<not> isClose ctx \<and> isSocket ctx \<and>
   \<not> getUserNonblock ctx \<and> to = getTimeout so ctx \<and>
   kernel E (tick w) = (- 1, Some EAGAIN) \<and> iom_this w \<and> add_event_rt E (Suc (tick w)) \<noteq> 0 \<longrightarrow>
   do_io E fd name ev so args w =
     Some (Inr (- 1),
       w\<lparr>errno := EAGAIN,
         trace := trace w @ Sys name fd args #
           (if to \<noteq> - 1 then [AddConditionTimer to] else []) @
           [AddEvent fd ev, LogError (name @ '' addEvent'')] @
           (if to \<noteq> - 1 then [TimerCancel] else []),
         tick := tick w + 2\<rparr>)"
proof (intro impI, elim conjE)
  assume pre: "t_hook_enable w" "fd_mgr w fd = Some ctx" "\<not> isClose ctx" "isSocket ctx"
    "\<not> getUserNonblock ctx"
    and to: "to = getTimeout so ctx"
    and k: "kernel E (tick w) = (- 1, Some EAGAIN)" and iom: "iom_this w"
    and rt: "add_event_rt E (Suc (tick w)) \<noteq> 0"
  have "do_io E fd name ev so args w = do_io_retry E fd name ev args to \<lparr>cancelled = 0\<rparr> w"
    unfolding to using pre by (rule do_io_socket)
  also have "\<dots> = Some (Inr (- 1),
       w\<lparr>errno := EAGAIN,
         trace := trace w @ Sys name fd args #
           (if to \<noteq> - 1 then [AddConditionTimer to] else []) @
           [AddEvent fd ev, LogError (name @ '' addEvent'')] @
           (if to \<noteq> - 1 then [TimerCancel] else []),
         tick := tick w + 2\<rparr>)"
    using rt by (cases "to = - 1")
      (simp_all add: do_io_retry_eagain [OF k iom] iom_addEvent_def log_action_def)
  finally show "do_io E fd name ev so args w =
     Some (Inr (- 1),
       w\<lparr>errno := EAGAIN,
         trace := trace w @ Sys name fd args #
           (if to \<noteq> - 1 then [AddConditionTimer to] else []) @
           [AddEvent fd ev, LogError (name @ '' addEvent'')] @
           (if to \<noteq> - 1 then [TimerCancel] else []),
         tick := tick w + 2\<rparr>)" .
qed

theorem do_io_addEvent_failure_witness:
  "do_io (scripted [(- 1, Some 11)] 0 (- 1) False) 3 ''read'' READ SO_RCVTIMEO [] demo_world =
     Some (Inr (- 1),
       demo_world\<lparr>errno := 11,
         trace := [Sys ''read'' 3 [], AddConditionTimer 100, AddEvent 3 READ,
                   LogError ''read addEvent'', TimerCancel],
         tick := 2\<rparr>)"
  using do_io_addEvent_failure [where w = demo_world and fd = 3 and ctx = sock_ctx
      and to = 100 and so = SO_RCVTIMEO and E = "scripted [(- 1, Some 11)] 0 (- 1) False"
      and name = "''read''" and ev = READ and args = "[]"]
  by (simp add: demo_world_def sock_ctx_def scripted_def isClose_def isSocket_def
      getUserNonblock_def getTimeout_def errno_defs)

subsection \<open>\<open>connect_with_timeout\<close> on an unknown descriptor\<close>

text \<open>
  Claim C9. With the hook flag set, \<open>connect_with_timeout\<close> on a descriptor without
  an \<open>FdCtx\<close>, or with one that reports closed, returns \<open>-1\<close> with errno
  \<open>EBADF\<close> and the real \<open>connect\<close> is not called (the trace is unchanged);
  \<open>do_io\<close> on a descriptor without an \<open>FdCtx\<close> calls the real function instead.
\<close>

theorem connect_without_ctx:
  "t_hook_enable w \<longrightarrow>
     (fd_mgr w fd = None \<longrightarrow>
        connect_with_timeout E fd addr timeout_ms w = (Inr (- 1), w\<lparr>errno := EBADF\<rparr>) \<and>
        do_io E fd name ev so args w = Some (delegate E name fd args w)) \<and>
     (fd_mgr w fd = Some ctx \<and> isClose ctx \<longrightarrow>
        connect_with_timeout E fd addr timeout_ms w = (Inr (- 1), w\<lparr>errno := EBADF\<rparr>))"
  by (simp add: connect_with_timeout_def do_io_def)

theorem connect_without_ctx_witness:
  "connect_with_timeout (scripted [(0, None)] 0 0 False) 4 [] 5000 demo_world =
     (Inr (- 1), demo_world\<lparr>errno := 9\<rparr>) \<and>
   do_io (scripted [(0, None)] 0 0 False) 4 ''write'' WRITE SO_SNDTIMEO [] demo_world =
     Some (Inr 0, demo_world\<lparr>trace := [Sys ''write'' 4 []], tick := 1\<rparr>) \<and>
   connect_with_timeout (scripted [(0, None)] 0 0 False) 5 [] 5000 demo_world =
     (Inr (- 1), demo_world\<lparr>errno := 9\<rparr>)"
  using connect_without_ctx [where w = demo_world and fd = 4 and ctx = sock_ctx
      and E = "scripted [(0, None)] 0 0 False" and addr = "[]" and timeout_ms = 5000
      and name = "''write''" and ev = WRITE and so = SO_SNDTIMEO and args = "[]"]
    connect_without_ctx [where w = demo_world and fd = 5 and ctx = closed_ctx
      and E = "scripted [(0, None)] 0 0 False" and addr = "[]" and timeout_ms = 5000
      and name = "''write''" and ev = WRITE and so = SO_SNDTIMEO and args = "[]"]
  by (simp add: demo_world_def delegate_eq scripted_def EBADF_def isClose_def
      closed_ctx_def sock_ctx_def)

text \<open>
  A connect in progress whose timer expires before the socket is writable: \<open>-1\<close> with
  errno \<open>ETIMEDOUT\<close>.
\<close>

theorem connect_times_out:
  "t_hook_enable w \<and> fd_mgr w fd = Some ctx \<and> \<not> isClose ctx \<and> isSocket ctx \<and>
   \<not> getUserNonblock ctx \<and> kernel E (tick w) = (- 1, Some EINPROGRESS) \<and> iom_this w \<and>
   add_event_rt E (Suc (tick w)) = 0 \<and> timeout_ms \<noteq> - 1 \<and> timer_fires E (tick w + 2) \<longrightarrow>
   connect_with_timeout E fd addr timeout_ms w =
     (Inr (- 1),
      w\<lparr>errno := ETIMEDOUT,
        trace := trace w @ [Sys ''connect'' fd addr, AddConditionTimer timeout_ms,
                 AddEvent fd WRITE, Yield, CancelEvent fd WRITE, TimerCancel],
        tick := tick w + 3\<rparr>)"
  by (simp add: connect_with_timeout_def call_real_eq iom_addEvent_def log_action_def
      fiber_yield_def connect_timer_cb_def errno_defs)

theorem connect_times_out_witness:
  "connect (scripted [(- 1, Some 115)] 0 0 True) 3 [] demo_world =
     (Inr (- 1),
      demo_world\<lparr>errno := 110,
        trace := [Sys ''connect'' 3 [], AddConditionTimer 5000, AddEvent 3 WRITE, Yield,
                  CancelEvent 3 WRITE, TimerCancel],
        tick := 3\<rparr>)"
  using connect_times_out [where w = demo_world and fd = 3 and ctx = sock_ctx
      and E = "scripted [(- 1, Some 115)] 0 0 True" and timeout_ms = 5000 and addr = "[]"]
  by (simp add: connect_def demo_world_def sock_ctx_def scripted_def isClose_def isSocket_def
      getUserNonblock_def errno_defs)

subsection \<open>I/O after \<open>close\<close>\<close>

text \<open>
  Claim C1, as the code has it. The claim is that after the hooked \<open>close(f)\<close> every
  hooked I/O call on \<open>f\<close> returns \<open>-1\<close> with errno \<open>EBADF\<close> before any
  syscall. \<open>close\<close> removes the \<open>FdCtx\<close> from \<open>FdMgr\<close> instead of marking
  it closed, and \<open>do_io\<close> hands a descriptor without a context to the real function.
  So: after \<open>close(f)\<close> with the hook flag set, \<open>FdMgr\<close> has no context for
  \<open>f\<close>; every call through \<open>do_io\<close> on \<open>f\<close> is one call of the real function,
  whose result and errno are returned; \<open>connect_with_timeout\<close> returns \<open>-1\<close> with
  \<open>EBADF\<close> without a syscall.
\<close>

theorem close_then_io_delegates:
  "t_hook_enable w \<and> wc = snd (close E f w) \<longrightarrow>
     fd_mgr wc f = None \<and>
     do_io E f name ev so args wc = Some (delegate E name f args wc) \<and>
     trace (snd (delegate E name f args wc)) = trace wc @ [Sys name f args] \<and>
     connect_with_timeout E f addr to wc = (Inr (- 1), wc\<lparr>errno := EBADF\<rparr>)"
proof (intro impI, elim conjE)
  assume hook: "t_hook_enable w" and wc: "wc = snd (close E f w)"
  have h1: "t_hook_enable wc"
    using hook by (simp add: wc close_def call_real_eq FdMgr_del_def log_action_def Let_def
        split: option.splits)
  have f1: "fd_mgr wc f = None"
    using hook by (simp add: wc close_def call_real_eq FdMgr_del_def log_action_def Let_def
        split: option.splits)
  have "do_io E f name ev so args wc = Some (delegate E name f args wc)"
    using h1 f1 by (simp add: do_io_def)
  moreover have "connect_with_timeout E f addr to wc = (Inr (- 1), wc\<lparr>errno := EBADF\<rparr>)"
    using h1 f1 by (simp add: connect_with_timeout_def)
  moreover have "trace (snd (delegate E name f args wc)) = trace wc @ [Sys name f args]"
    by (simp add: delegate_eq)
  ultimately show "fd_mgr wc f = None \<and>
     do_io E f name ev so args wc = Some (delegate E name f args wc) \<and>
     trace (snd (delegate E name f args wc)) = trace wc @ [Sys name f args] \<and>
     connect_with_timeout E f addr to wc = (Inr (- 1), wc\<lparr>errno := EBADF\<rparr>)"
    using f1 by simp
qed

theorem close_then_io_delegates_witness:
  "do_io (scripted [(0, None), (- 1, Some 9)] 0 0 False) 3 ''recv'' READ SO_RCVTIMEO []
     (snd (close (scripted [(0, None), (- 1, Some 9)] 0 0 False) 3 demo_world)) =
   Some (Inr (- 1),
     demo_world\<lparr>errno := 9, fd_mgr := (fd_mgr demo_world)(3 := None),
       trace := [CancelAll 3, Sys ''close'' 3 [], Sys ''recv'' 3 []], tick := 2\<rparr>)"
  using close_then_io_delegates [where w = demo_world and f = 3
      and E = "scripted [(0, None), (- 1, Some 9)] 0 0 False" and name = "''recv''"
      and ev = READ and so = SO_RCVTIMEO and args = "[]"
      and wc = "snd (close (scripted [(0, None), (- 1, Some 9)] 0 0 False) 3 demo_world)"]
  by (simp add: demo_world_def scripted_def close_def call_real_eq delegate_eq FdMgr_del_def
      log_action_def)

text \<open>
  The claim C1 as stated fails: \<open>read(3)\<close> after \<open>close(3)\<close> calls the real
  \<open>read\<close>, and it is the kernel that answers \<open>-1\<close> with \<open>EBADF\<close> (9).
\<close>

theorem close_then_read_counterexample:
  "read (scripted [(0, None), (- 1, Some 9)] 0 0 False) 3 []
     (snd (close (scripted [(0, None), (- 1, Some 9)] 0 0 False) 3 demo_world)) =
   Some (Inr (- 1),
     demo_world\<lparr>errno := 9, fd_mgr := (fd_mgr demo_world)(3 := None),
       trace := [CancelAll 3, Sys ''close'' 3 [], Sys ''read'' 3 []], tick := 2\<rparr>) \<and>
   read (scripted [(0, None), (- 1, Some 9)] 0 0 False) 3 []
     (snd (close (scripted [(0, None), (- 1, Some 9)] 0 0 False) 3 demo_world)) \<noteq>
   Some (Inr (- 1),
     (snd (close (scripted [(0, None), (- 1, Some 9)] 0 0 False) 3 demo_world))
       \<lparr>errno := EBADF\<rparr>)"
  by (simp add: read_def do_io_def demo_world_def scripted_def close_def call_real_eq
      delegate_eq FdMgr_del_def log_action_def EBADF_def)

subsection \<open>The hook flag\<close>

text \<open>
  Claim C4. The claim is that every hook, when the thread's hook flag is false, is the call
  of the real function and nothing else. \<open>fcntl\<close> and \<open>ioctl\<close> never read the
  flag. With the flag false and descriptor 3 a managed socket: \<open>F_GETFL\<close> returns 2
  where the real \<open>fcntl\<close> returned 2050 (\<open>O_RDWR | O_NONBLOCK\<close>); \<open>F_SETFL\<close>
  with argument 0 writes \<open>user_nonblock\<close> in the \<open>FdCtx\<close> and calls the real
  \<open>fcntl\<close> with \<open>O_NONBLOCK\<close> (2048) instead of 0; \<open>ioctl\<close> with
  \<open>FIONBIO\<close> and a non-zero value writes \<open>user_nonblock\<close> as well.
\<close>

theorem hook_flag_ignored:
  "fcntl (scripted [(2050, None)] 0 0 False) 3 F_GETFL 0 (demo_world\<lparr>t_hook_enable := False\<rparr>) =
     (2, demo_world\<lparr>t_hook_enable := False, trace := [Sys ''fcntl'' 3 [F_GETFL]], tick := 1\<rparr>) \<and>
   fcntl (scripted [(0, None)] 0 0 False) 3 F_SETFL 0
     (demo_world\<lparr>t_hook_enable := False,
        fd_mgr := (fd_mgr demo_world)(3 \<mapsto> sock_ctx\<lparr>user_nonblock := True\<rparr>)\<rparr>) =
     (0, demo_world\<lparr>t_hook_enable := False,
        fd_mgr := (fd_mgr demo_world)(3 \<mapsto> sock_ctx\<lparr>user_nonblock := False\<rparr>),
        trace := [Sys ''fcntl'' 3 [F_SETFL, 2048]], tick := 1\<rparr>) \<and>
   ioctl (scripted [(0, None)] 0 0 False) 3 FIONBIO 4096 1 (demo_world\<lparr>t_hook_enable := False\<rparr>) =
     (0, demo_world\<lparr>t_hook_enable := False,
        fd_mgr := (fd_mgr demo_world)(3 \<mapsto> sock_ctx\<lparr>user_nonblock := True\<rparr>),
        trace := [Sys ''ioctl'' 3 [FIONBIO, 4096]], tick := 1\<rparr>)"
  by (simp add: fcntl_def ioctl_def call_real_eq FdMgr_put_def fcntl_cmd_defs isClose_def
      isSocket_def getUserNonblock_def getSysNonblock_def setUserNonblock_def demo_world_def
      sock_ctx_def scripted_def O_NONBLOCK_def)

theorem hook_flag_ignored_witness:
  "fst (fcntl (scripted [(2050, None)] 0 0 False) 3 F_GETFL 0
      (demo_world\<lparr>t_hook_enable := False\<rparr>)) = 2"
  using hook_flag_ignored by simp

text \<open>
  The hooks that do read the flag (\<open>do_io\<close>, \<open>connect_with_timeout\<close>,
  \<open>close\<close>, \<open>setsockopt\<close>) are the real call when it is false.
\<close>

theorem hook_disabled_delegates:
  "\<not> t_hook_enable w \<longrightarrow>
     do_io E fd name ev so args w = Some (delegate E name fd args w) \<and>
     connect_with_timeout E fd addr to w = delegate E ''connect'' fd addr w \<and>
     close E fd w = call_real E ''close'' fd [] w \<and>
     setsockopt E fd level optname tv w = call_real E ''setsockopt'' fd [level, optname] w"
  by (simp add: do_io_def connect_with_timeout_def close_def setsockopt_def)

theorem hook_disabled_delegates_witness:
  "close (scripted [(0, None)] 0 0 False) 3 (demo_world\<lparr>t_hook_enable := False\<rparr>) =
     (0, demo_world\<lparr>t_hook_enable := False, trace := [Sys ''close'' 3 []], tick := 1\<rparr>)"
  using hook_disabled_delegates [where w = "demo_world\<lparr>t_hook_enable := False\<rparr>" and fd = 3
      and E = "scripted [(0, None)] 0 0 False"]
  by (simp add: demo_world_def scripted_def call_real_eq)

subsection \<open>\<open>fcntl\<close> and the user's view of \<open>O_NONBLOCK\<close>\<close>

text \<open>
  Claim C7. For a descriptor whose \<open>FdCtx\<close> is a socket that is not closed: after
  \<open>F_SETFL\<close> with \<open>O_NONBLOCK\<close> set, \<open>F_GETFL\<close> returns a value with
  \<open>O_NONBLOCK\<close> set; after \<open>F_SETFL\<close> with it cleared, a value with it
  cleared; and in every world \<open>F_GETFL\<close> returns the kernel's answer with the bit
  replaced by the context's \<open>user_nonblock\<close>, whatever the kernel's own bit is.
\<close>

theorem fcntl_nonblock_roundtrip:
  "fd_mgr w fd = Some ctx \<and> \<not> isClose ctx \<and> isSocket ctx \<longrightarrow>
     fst (fcntl E fd F_GETFL a (snd (fcntl E fd F_SETFL (flags OR O_NONBLOCK) w)))
       AND O_NONBLOCK \<noteq> 0 \<and>
     fst (fcntl E fd F_GETFL a (snd (fcntl E fd F_SETFL (flags AND NOT O_NONBLOCK) w)))
       AND O_NONBLOCK = 0 \<and>
     fst (fcntl E fd F_GETFL a w) =
       (if getUserNonblock ctx then fst (kernel E (tick w)) OR O_NONBLOCK
        else fst (kernel E (tick w)) AND NOT O_NONBLOCK)"
  by (auto simp: fcntl_def call_real_eq FdMgr_put_def Let_def fcntl_cmd_defs isClose_def
      isSocket_def getUserNonblock_def setUserNonblock_def or_and_same andnot_and_same
      O_NONBLOCK_nonzero)

theorem fcntl_nonblock_roundtrip_witness:
  "fst (fcntl (scripted [(0, None), (2, None)] 0 0 False) 3 F_GETFL 0
     (snd (fcntl (scripted [(0, None), (2, None)] 0 0 False) 3 F_SETFL (2 OR O_NONBLOCK)
        (demo_world\<lparr>fd_mgr := (fd_mgr demo_world)(3 \<mapsto> sock_ctx\<lparr>sys_nonblock := False\<rparr>)\<rparr>)))) = 2050 \<and>
   fst (fcntl (scripted [(0, None), (2050, None)] 0 0 False) 3 F_GETFL 0
     (snd (fcntl (scripted [(0, None), (2050, None)] 0 0 False) 3 F_SETFL (2 AND NOT O_NONBLOCK)
        demo_world))) = 2"
  using fcntl_nonblock_roundtrip [where w = "demo_world\<lparr>fd_mgr := (fd_mgr demo_world)(3 \<mapsto> sock_ctx\<lparr>sys_nonblock := False\<rparr>)\<rparr>" and fd = 3
      and ctx = "sock_ctx\<lparr>sys_nonblock := False\<rparr>" and E = "scripted [(0, None), (2, None)] 0 0 False"
      and a = 0 and flags = 2]
    fcntl_nonblock_roundtrip [where w = demo_world and fd = 3
      and ctx = sock_ctx and E = "scripted [(0, None), (2050, None)] 0 0 False"
      and a = 0 and flags = 2]
  by (simp add: fcntl_def call_real_eq FdMgr_put_def Let_def fcntl_cmd_defs isClose_def
      isSocket_def getUserNonblock_def getSysNonblock_def setUserNonblock_def demo_world_def sock_ctx_def
      scripted_def O_NONBLOCK_def)


subsection \<open>\<open>setsockopt\<close> caches the timeouts\<close>

text \<open>
  Claim C10. With the hook flag set, \<open>setsockopt\<close> at level \<open>SOL_SOCKET\<close> with
  \<open>SO_RCVTIMEO\<close> or \<open>SO_SNDTIMEO\<close>, on a descriptor that has an \<open>FdCtx\<close>,
  stores \<open>tv_sec * 1000 + tv_usec / 1000\<close> on the context and then calls the real
  \<open>setsockopt\<close> in the world so updated: the value is cached whatever the real call
  returns, and the hook returns what the real call returns.
\<close>

theorem setsockopt_caches_timeout:
  "t_hook_enable w \<and> level = SOL_SOCKET \<and> (optname = SO_RCVTIMEO \<or> optname = SO_SNDTIMEO) \<and>
   fd_mgr w fd = Some ctx \<longrightarrow>
     setsockopt E fd level optname tv w =
       call_real E ''setsockopt'' fd [level, optname]
         (w\<lparr>fd_mgr := (fd_mgr w)(fd \<mapsto> setTimeout optname (timeval_ms tv) ctx)\<rparr>) \<and>
     fst (setsockopt E fd level optname tv w) = fst (kernel E (tick w)) \<and>
     fd_mgr (snd (setsockopt E fd level optname tv w)) fd =
       Some (setTimeout optname (timeval_ms tv) ctx) \<and>
     getTimeout optname (setTimeout optname (timeval_ms tv) ctx) =
       word_of_int (sint (tv_sec tv) * 1000 + sint (tv_usec tv) sdiv 1000)"
  by (auto simp: setsockopt_def FdMgr_put_def call_real_eq getTimeout_def setTimeout_def
      timeval_ms_def sockopt_defs)

theorem setsockopt_caches_timeout_witness:
  "setsockopt (scripted [(- 1, Some 9)] 0 0 False) 3 SOL_SOCKET SO_RCVTIMEO
     \<lparr>tv_sec = 2, tv_usec = 500000\<rparr> demo_world =
   (- 1, demo_world\<lparr>errno := 9,
      fd_mgr := (fd_mgr demo_world)(3 \<mapsto> sock_ctx\<lparr>recv_timeout_ms := 2500\<rparr>),
      trace := [Sys ''setsockopt'' 3 [1, 20]], tick := 1\<rparr>)"
  using setsockopt_caches_timeout [where w = demo_world and level = SOL_SOCKET
      and optname = SO_RCVTIMEO and fd = 3 and ctx = sock_ctx
      and E = "scripted [(- 1, Some 9)] 0 0 False"
      and tv = "\<lparr>tv_sec = 2, tv_usec = 500000\<rparr>"]
  by (simp add: demo_world_def scripted_def call_real_eq setTimeout_def timeval_ms_def
      sockopt_defs signed_divide_int_def)

end
